theory Spec2Isabelle
  imports Main "HOL-Library.Sublist" "HOL-Library.Log_Nat" "HOL-Library.Multiset"
    "HOL-Library.Product_Lexorder"
begin

section \<open>The extraction result formatter of \<^verbatim>\<open>json_formatter.py\<close>\<close>

text \<open>
  The development embeds the methods of class \<^verbatim>\<open>JSONFormatter\<close>:
  \<^verbatim>\<open>_format_value\<close>, \<^verbatim>\<open>_create_summary\<close>, \<^verbatim>\<open>_extract_key_metrics\<close>,
  \<^verbatim>\<open>_validate_data_consistency\<close> and \<^verbatim>\<open>create_comparison_report\<close>, as they are
  written at lines 50 to 268 of the file. (From line 305 on the file repeats the text of
  lines 74 to 226 and of lines 228 to 268 once more, around the method
  \<^verbatim>\<open>export_to_json_file\<close>; the repeated text is the same, so there is one definition
  of each method to embed.)

  Python values are modelled as follows.
  \<^item> A \<^verbatim>\<open>str\<close> is a \<^typ>\<open>string\<close>, one \<^typ>\<open>char\<close> per code point; code points from 256
    on are outside the model.
  \<^item> A \<^verbatim>\<open>float\<close> is a \<^verbatim>\<open>pyfloat\<close>: an IEEE 754 binary64 value given by its exact
    rational value, with negative zero, the two infinities and NaN as values of their own.
  \<^item> A \<^verbatim>\<open>dict\<close> whose iteration order matters is an association list in insertion
    order, with distinct keys.
  \<^item> An exception is a value of \<^verbatim>\<open>py_exn\<close> carrying the text that \<^verbatim>\<open>str(e)\<close> returns.
\<close>

subsection \<open>Exceptions\<close>

datatype py_exn =
    ValueError string
  | AttributeError string
  | ZeroDivisionError string
  | OverflowError string

fun exn_str :: "py_exn \<Rightarrow> string" where
  "exn_str (ValueError m) = m"
| "exn_str (AttributeError m) = m"
| "exn_str (ZeroDivisionError m) = m"
| "exn_str (OverflowError m) = m"

subsection \<open>Strings: \<^verbatim>\<open>str.replace\<close>, \<^verbatim>\<open>str.strip\<close>, \<^verbatim>\<open>repr\<close>\<close>

text \<open>
  \<^verbatim>\<open>s.replace(old, new)\<close> for a non-empty \<^verbatim>\<open>old\<close>: the occurrences are found from the
  left and do not overlap. The counter is the number of characters of the current
  occurrence that are still to be skipped.
\<close>

fun replace_from :: "string \<Rightarrow> string \<Rightarrow> nat \<Rightarrow> string \<Rightarrow> string" where
  "replace_from old new k [] = []"
| "replace_from old new k (c # cs) =
     (if 0 < k then replace_from old new (k - 1) cs
      else if prefix old (c # cs) then new @ replace_from old new (length old - 1) cs
      else c # replace_from old new 0 cs)"

definition py_replace :: "string \<Rightarrow> string \<Rightarrow> string \<Rightarrow> string" where
  "py_replace s old new = replace_from old new 0 s"

text \<open>
  \<^verbatim>\<open>s.strip()\<close> removes the leading and trailing characters for which \<^verbatim>\<open>str.isspace\<close>
  holds: below 256 these are the code points 9 to 13, 28 to 32, 133 and 160.
\<close>

definition py_isspace :: "char \<Rightarrow> bool" where
  "py_isspace c =
     (let n = (of_char c :: nat)
      in (9 \<le> n \<and> n \<le> 13) \<or> (28 \<le> n \<and> n \<le> 32) \<or> n = 133 \<or> n = 160)"

definition py_strip :: "string \<Rightarrow> string" where
  "py_strip s = rev (dropWhile py_isspace (rev (dropWhile py_isspace s)))"

definition is_digit :: "char \<Rightarrow> bool" where
  "is_digit c = (c \<in> set ''0123456789'')"

definition digit_char :: "nat \<Rightarrow> char" where
  "digit_char n = ''0123456789'' ! (n mod 10)"

definition hex_char :: "nat \<Rightarrow> char" where
  "hex_char n = ''0123456789abcdef'' ! (n mod 16)"

text \<open>
  \<^verbatim>\<open>repr(s)\<close> of a string, which the message of the \<^verbatim>\<open>ValueError\<close> of \<^verbatim>\<open>float\<close>
  ends with: single quotes, unless the string has a single quote and no double quote;
  the quote character and the backslash escaped; tab, newline and carriage return as
  \<^verbatim>\<open>\t\<close>, \<^verbatim>\<open>\n\<close>, \<^verbatim>\<open>\r\<close>; every other code point that is not printable as \<^verbatim>\<open>\xNN\<close>.
\<close>

definition py_printable :: "char \<Rightarrow> bool" where
  "py_printable c =
     (let n = (of_char c :: nat)
      in (32 \<le> n \<and> n \<le> 126) \<or> (161 \<le> n \<and> n \<noteq> 173))"

definition repr_char :: "char \<Rightarrow> char \<Rightarrow> string" where
  "repr_char q c =
     (if c = q \<or> c = CHR 0x5C then [CHR 0x5C, c]
      else if c = CHR 0x09 then [CHR 0x5C, CHR ''t'']
      else if c = CHR 0x0A then [CHR 0x5C, CHR ''n'']
      else if c = CHR 0x0D then [CHR 0x5C, CHR ''r'']
      else if py_printable c then [c]
      else [CHR 0x5C, CHR ''x'', hex_char (of_char c div 16), hex_char (of_char c)])"

definition py_repr :: "string \<Rightarrow> string" where
  "py_repr s =
     (let q = (if CHR 0x27 \<in> set s \<and> CHR 0x22 \<notin> set s then CHR 0x22 else CHR 0x27)
      in [q] @ concat (map (repr_char q) s) @ [q])"

subsection \<open>Floats\<close>

text \<open>
  A \<^verbatim>\<open>float\<close>. \<open>FNum q\<close> is the finite value \<open>q\<close>, with \<open>FNum 0\<close> the positive zero;
  \<open>FNegZero\<close> is \<^verbatim>\<open>-0.0\<close>.
\<close>

datatype pyfloat = FNum rat | FNegZero | FPosInf | FNegInf | FNaN

text \<open>
  The order of the values that are not NaN, as a pair compared lexicographically; the two
  zeros are equal. Every comparison with a NaN is false.
\<close>

fun float_rank :: "pyfloat \<Rightarrow> int \<times> rat" where
  "float_rank (FNum q) = (0, q)"
| "float_rank FNegZero = (0, 0)"
| "float_rank FPosInf = (1, 0)"
| "float_rank FNegInf = (- 1, 0)"
| "float_rank FNaN = (2, 0)"

definition py_lt :: "pyfloat \<Rightarrow> pyfloat \<Rightarrow> bool" where
  "py_lt x y =
     (x \<noteq> FNaN \<and> y \<noteq> FNaN \<and>
      (fst (float_rank x) < fst (float_rank y) \<or>
       fst (float_rank x) = fst (float_rank y) \<and> snd (float_rank x) < snd (float_rank y)))"

definition py_eq :: "pyfloat \<Rightarrow> pyfloat \<Rightarrow> bool" where
  "py_eq x y = (x \<noteq> FNaN \<and> y \<noteq> FNaN \<and> float_rank x = float_rank y)"

definition py_ge :: "pyfloat \<Rightarrow> pyfloat \<Rightarrow> bool" where
  "py_ge x y = (py_lt y x \<or> py_eq x y)"

definition py_gt :: "pyfloat \<Rightarrow> pyfloat \<Rightarrow> bool" where
  "py_gt x y = py_lt y x"

text \<open>
  A Python \<^verbatim>\<open>int\<close> compared with a float is compared by its exact value.
\<close>

definition float_of_int :: "int \<Rightarrow> pyfloat" where
  "float_of_int i = FNum (of_int i)"

fun py_abs :: "pyfloat \<Rightarrow> pyfloat" where
  "py_abs (FNum q) = FNum \<bar>q\<bar>"
| "py_abs FNegZero = FNum 0"
| "py_abs FPosInf = FPosInf"
| "py_abs FNegInf = FPosInf"
| "py_abs FNaN = FNaN"

text \<open>Rounding to the nearest integer, a tie going to the even one.\<close>

definition round_half_even :: "rat \<Rightarrow> int" where
  "round_half_even q =
     (let f = \<lfloor>q\<rfloor>; r = q - of_int f
      in if r < 1 / 2 then f else if 1 / 2 < r then f + 1 else if even f then f else f + 1)"

text \<open>The exponent \<open>e\<close> with \<open>2 powi e \<le> q < 2 powi (e + 1)\<close>, for a positive \<open>q\<close>.\<close>

definition binary_exponent :: "rat \<Rightarrow> int" where
  "binary_exponent q =
     (let (a, b) = quotient_of q;
          e0 = int (floorlog 2 (nat a)) - int (floorlog 2 (nat b))
      in if 2 powi e0 \<le> q then e0 else e0 - 1)"

text \<open>
  The binary64 value nearest to a magnitude \<open>m\<close>, with the sign given apart so that a
  result of zero keeps it: 53 significant bits, the least exponent \<open>- 1022\<close> (below it the
  spacing stays \<open>2 powi (- 1074)\<close>), an infinity from \<open>2 ^ 1024\<close> on.
\<close>

definition round_double :: "bool \<Rightarrow> rat \<Rightarrow> pyfloat" where
  "round_double neg m =
     (if m \<le> 0 then (if neg then FNegZero else FNum 0)
      else
        let e = max (binary_exponent m) (- 1022);
            u = 2 powi (e - 52);
            r = of_int (round_half_even (m / u)) * u
        in if r = 0 then (if neg then FNegZero else FNum 0)
           else if 2 ^ 1024 \<le> r then (if neg then FNegInf else FPosInf)
           else FNum (if neg then - r else r))"

subsection \<open>Formatting a float: the format specifications \<^verbatim>\<open>,.2f\<close> and \<^verbatim>\<open>.1f\<close>\<close>

fun dec_digits :: "nat \<Rightarrow> string" where
  "dec_digits n = (if n < 10 then [digit_char n] else dec_digits (n div 10) @ [digit_char n])"

fun pad_digits :: "nat \<Rightarrow> nat \<Rightarrow> string" where
  "pad_digits 0 n = []"
| "pad_digits (Suc p) n = pad_digits p (n div 10) @ [digit_char n]"

fun group_thousands :: "nat \<Rightarrow> string" where
  "group_thousands n =
     (if n < 1000 then dec_digits n
      else group_thousands (n div 1000) @ '','' @ pad_digits 3 (n mod 1000))"

text \<open>
  The digits of a magnitude with \<open>p\<close> places after the point (\<open>p\<close> positive), the integer
  part grouped by thousands when the specification has the comma. The magnitude is
  rounded to \<open>p\<close> places from its exact value, a tie going to the even digit.
\<close>

definition fixed_digits :: "bool \<Rightarrow> nat \<Rightarrow> rat \<Rightarrow> string" where
  "fixed_digits grouped p m =
     (let k = nat (round_half_even (m * 10 ^ p))
      in (if grouped then group_thousands (k div 10 ^ p) else dec_digits (k div 10 ^ p))
         @ ''.'' @ pad_digits p (k mod 10 ^ p))"

fun format_f :: "bool \<Rightarrow> nat \<Rightarrow> pyfloat \<Rightarrow> string" where
  "format_f grouped p (FNum q) =
     (if q < 0 then ''-'' else []) @ fixed_digits grouped p \<bar>q\<bar>"
| "format_f grouped p FNegZero = ''-'' @ fixed_digits grouped p 0"
| "format_f grouped p FPosInf = ''inf''"
| "format_f grouped p FNegInf = ''-inf''"
| "format_f grouped p FNaN = ''nan''"

subsection \<open>The constructor \<^verbatim>\<open>float(s)\<close> on a string\<close>

text \<open>
  \<^verbatim>\<open>float\<close> first checks the underscores of the whole string and removes them: an
  underscore stands between two digits. \<open>prev\<close> is the character before.
\<close>

fun remove_underscores :: "char \<Rightarrow> string \<Rightarrow> string option" where
  "remove_underscores prev [] = (if prev = CHR ''_'' then None else Some [])"
| "remove_underscores prev (c # cs) =
     (if c = CHR ''_'' then (if is_digit prev then remove_underscores c cs else None)
      else if prev = CHR ''_'' \<and> \<not> is_digit c then None
      else map_option ((#) c) (remove_underscores c cs))"

text \<open>
  The white space that \<^verbatim>\<open>float\<close> skips at both ends: the code points 9 to 13 and 32,
  and the white space from 127 on (133 and 160).
\<close>

definition float_isspace :: "char \<Rightarrow> bool" where
  "float_isspace c =
     (let n = (of_char c :: nat) in (9 \<le> n \<and> n \<le> 13) \<or> n = 32 \<or> n = 133 \<or> n = 160)"

definition ascii_lower :: "char \<Rightarrow> char" where
  "ascii_lower c =
     (if c \<in> set ''ABCDEFGHIJKLMNOPQRSTUVWXYZ'' then char_of (of_char c + (32 :: nat)) else c)"

definition ci_prefix :: "string \<Rightarrow> string \<Rightarrow> bool" where
  "ci_prefix w s = (map ascii_lower (take (length w) s) = w)"

text \<open>An optional sign: whether it is a minus, and the rest.\<close>

fun split_sign :: "string \<Rightarrow> bool \<times> string" where
  "split_sign [] = (False, [])"
| "split_sign (c # cs) =
     (if c = CHR ''-'' then (True, cs) else if c = CHR ''+'' then (False, cs)
      else (False, c # cs))"

text \<open>
  \<^verbatim>\<open>inf\<close>, \<^verbatim>\<open>infinity\<close> and \<^verbatim>\<open>nan\<close> in any case, after an optional sign: the value and
  the text left over, or \<open>None\<close> when the text starts with none of them.
\<close>

definition parse_inf_or_nan :: "string \<Rightarrow> (pyfloat \<times> string) option" where
  "parse_inf_or_nan s =
     (let (neg, r) = split_sign s
      in if ci_prefix ''inf'' r then
           Some (if neg then FNegInf else FPosInf,
                 if ci_prefix ''inity'' (drop 3 r) then drop 8 r else drop 3 r)
         else if ci_prefix ''nan'' r then Some (FNaN, drop 3 r)
         else None)"

definition digit_val :: "char \<Rightarrow> nat" where
  "digit_val c = of_char c - 48"

definition digits_val :: "string \<Rightarrow> nat" where
  "digits_val ds = foldl (\<lambda>a c. 10 * a + digit_val c) 0 ds"

text \<open>
  An exponent part \<^verbatim>\<open>e\<close> or \<^verbatim>\<open>E\<close>, an optional sign, one digit at least: the exponent
  and the text left over. Without a digit no exponent part is read.
\<close>

definition parse_exponent :: "string \<Rightarrow> int \<times> string" where
  "parse_exponent s =
     (case s of
        [] \<Rightarrow> (0, s)
      | c # cs \<Rightarrow>
          if c = CHR ''e'' \<or> c = CHR ''E'' then
            (let (neg, r) = split_sign cs; ds = takeWhile is_digit r
             in if ds = [] then (0, s)
                else ((if neg then - int (digits_val ds) else int (digits_val ds)),
                      dropWhile is_digit r))
          else (0, s))"

text \<open>
  A decimal numeral: a sign, digits, a point, digits, an exponent part, all optional but
  for one digit before or after the point. The result has the sign, the magnitude and
  the text left over; \<open>None\<close> when there is no digit.
\<close>

definition parse_decimal :: "string \<Rightarrow> (bool \<times> rat \<times> string) option" where
  "parse_decimal s =
     (let (neg, r0) = split_sign s;
          ip = takeWhile is_digit r0;
          r1 = dropWhile is_digit r0;
          has_point = (r1 \<noteq> [] \<and> hd r1 = CHR ''.'');
          fp = (if has_point then takeWhile is_digit (tl r1) else []);
          r2 = (if has_point then dropWhile is_digit (tl r1) else r1)
      in if ip = [] \<and> fp = [] then None
         else
           let (ex, r3) = parse_exponent r2
           in Some (neg, of_nat (digits_val (ip @ fp)) * 10 powi (ex - int (length fp)), r3))"

definition float_error :: "string \<Rightarrow> py_exn" where
  "float_error s = ValueError (''could not convert string to float: '' @ py_repr s)"

text \<open>
  \<^verbatim>\<open>float(s)\<close>: the whole text between the white space is one of the special names or
  a decimal numeral, which is rounded to the nearest binary64 value. A text that is
  neither raises \<^verbatim>\<open>ValueError\<close>; a numeral beyond the range gives an infinity, no error.
\<close>

definition py_float :: "string \<Rightarrow> py_exn + pyfloat" where
  "py_float s =
     (case remove_underscores (CHR 0x00) s of
        None \<Rightarrow> Inl (float_error s)
      | Some t \<Rightarrow>
          let u = rev (dropWhile float_isspace (rev (dropWhile float_isspace t)))
          in (case parse_inf_or_nan u of
                Some (x, rest) \<Rightarrow> (if rest = [] then Inr x else Inl (float_error s))
              | None \<Rightarrow>
                  (case parse_decimal u of
                     None \<Rightarrow> Inl (float_error s)
                   | Some (neg, m, rest) \<Rightarrow>
                       (if rest = [] then Inr (round_double neg m) else Inl (float_error s)))))"

subsection \<open>The value normalizer \<^verbatim>\<open>_format_value\<close>\<close>

record normalized_value =
  raw_value :: "string option"
  formatted_value :: "string option"
  numeric_value :: "pyfloat option"
  currency :: "string option"
  status :: string

text \<open>
  Line 65: the four replacements in the order of the source, then \<^verbatim>\<open>strip\<close>.
\<close>

definition clean_value :: "string \<Rightarrow> string" where
  "clean_value v =
     py_strip (py_replace (py_replace (py_replace (py_replace v ''$'' []) '','' [])
       ''USD'' []) ''US'' [])"

text \<open>Line 70: the currency text of a number.\<close>

definition formatted_currency :: "pyfloat \<Rightarrow> string" where
  "formatted_currency x =
     (if py_ge x (float_of_int 0) then ''$'' @ format_f True 2 x
      else ''-$'' @ format_f True 2 (py_abs x))"

text \<open>
  The body of the outer \<^verbatim>\<open>try\<close> (lines 63 to 88). The inner handler takes the
  \<^verbatim>\<open>ValueError\<close> of \<^verbatim>\<open>float\<close>; any other exception leaves the body.
\<close>

definition format_value_try :: "string \<Rightarrow> py_exn + normalized_value" where
  "format_value_try v =
     (let clean = clean_value v
      in case py_float clean of
           Inr x \<Rightarrow>
             Inr \<lparr>raw_value = Some v, formatted_value = Some (formatted_currency x),
                  numeric_value = Some x, currency = Some ''USD'', status = ''extracted''\<rparr>
         | Inl (ValueError msg) \<Rightarrow>
             Inr \<lparr>raw_value = Some v, formatted_value = Some clean,
                  numeric_value = None, currency = None, status = ''extracted_non_numeric''\<rparr>
         | Inl e \<Rightarrow> Inl e)"

text \<open>
  \<^verbatim>\<open>_format_value(value)\<close>. The argument is a string or \<^verbatim>\<open>None\<close>. Line 54 takes the
  values that are false (\<^verbatim>\<open>None\<close>, the empty string) and the two markers.
\<close>

definition format_value :: "string option \<Rightarrow> normalized_value" where
  "format_value v =
     (case v of
        None \<Rightarrow>
          \<lparr>raw_value = v, formatted_value = None, numeric_value = None, currency = None,
           status = ''not_found''\<rparr>
      | Some s \<Rightarrow>
          if s = [] \<or> s \<in> set [''NOT_FOUND'', ''ERROR''] then
            \<lparr>raw_value = v, formatted_value = None, numeric_value = None, currency = None,
             status = ''not_found''\<rparr>
          else
            (case format_value_try s of
               Inr r \<Rightarrow> r
             | Inl e \<Rightarrow>
                 \<lparr>raw_value = v, formatted_value = None, numeric_value = None,
                  currency = None, status = ''format_error''\<rparr>))"

subsection \<open>Float arithmetic of the summary\<close>

fun is_neg :: "pyfloat \<Rightarrow> bool" where
  "is_neg (FNum q) = (q < 0)"
| "is_neg FNegZero = True"
| "is_neg FPosInf = False"
| "is_neg FNegInf = True"
| "is_neg FNaN = False"

definition is_inf :: "pyfloat \<Rightarrow> bool" where
  "is_inf x = (x = FPosInf \<or> x = FNegInf)"

definition is_zero :: "pyfloat \<Rightarrow> bool" where
  "is_zero x = (x = FNum 0 \<or> x = FNegZero)"

text \<open>The product of two floats, rounded once.\<close>

definition py_mul :: "pyfloat \<Rightarrow> pyfloat \<Rightarrow> pyfloat" where
  "py_mul x y =
     (if x = FNaN \<or> y = FNaN then FNaN
      else if is_inf x \<or> is_inf y then
        (if is_zero x \<or> is_zero y then FNaN
         else if is_neg x = is_neg y then FPosInf else FNegInf)
      else round_double (is_neg x \<noteq> is_neg y)
             (\<bar>snd (float_rank x)\<bar> * \<bar>snd (float_rank y)\<bar>))"

text \<open>
  \<^verbatim>\<open>a / b\<close> of two \<^verbatim>\<open>int\<close> that are not negative: the quotient rounded once, an
  exception when the divisor is zero or the quotient is beyond the floats.
\<close>

definition py_truediv :: "nat \<Rightarrow> nat \<Rightarrow> py_exn + pyfloat" where
  "py_truediv a b =
     (if b = 0 then Inl (ZeroDivisionError ''division by zero'')
      else
        (case round_double False (of_nat a / of_nat b) of
           FPosInf \<Rightarrow> Inl (OverflowError ''integer division result too large for a float'')
         | q \<Rightarrow> Inr q))"

text \<open>
  \<^verbatim>\<open>round(x, 1)\<close>: the decimal with one place nearest to the exact value of \<open>x\<close>, a tie
  going to the even digit, converted back to a float. The source does not call it; the
  specification words the extraction rate with it.
\<close>

fun py_round1 :: "pyfloat \<Rightarrow> py_exn + pyfloat" where
  "py_round1 (FNum q) =
     (case round_double (q < 0) (of_int (round_half_even (\<bar>q\<bar> * 10)) / 10) of
        FPosInf \<Rightarrow> Inl (OverflowError ''rounded value too large to represent'')
      | FNegInf \<Rightarrow> Inl (OverflowError ''rounded value too large to represent'')
      | r \<Rightarrow> Inr r)"
| "py_round1 x = Inr x"

subsection \<open>The entries of \<^verbatim>\<open>formatted_data\<close>\<close>

text \<open>
  \<^verbatim>\<open>formatted_data\<close> maps an attribute to the dict that \<^verbatim>\<open>_format_value\<close> returned.
  The annotation \<^verbatim>\<open>Dict[str, Dict]\<close> is not enforced: \<open>NotADict\<close> is the value \<^verbatim>\<open>None\<close>
  in the place of a dict, on which \<^verbatim>\<open>data.get\<close> raises \<^verbatim>\<open>AttributeError\<close>. It is
  the one exception that the bodies of the summary, the validator and the comparison
  raise on dicts whose fields have the types of \<open>normalized_value\<close>.
\<close>

datatype py_entry = Entry normalized_value | NotADict

type_synonym formatted_data = "(string \<times> py_entry) list"

definition none_has_no_get :: string where
  "none_has_no_get =
     [CHR 0x27] @ ''NoneType'' @ [CHR 0x27] @ '' object has no attribute '' @
     [CHR 0x27] @ ''get'' @ [CHR 0x27]"

definition entry_get :: "py_entry \<Rightarrow> py_exn + normalized_value" where
  "entry_get d =
     (case d of
        Entry r \<Rightarrow> Inr r
      | NotADict \<Rightarrow> Inl (AttributeError none_has_no_get))"

subsection \<open>The summary builder \<^verbatim>\<open>_create_summary\<close>\<close>

record top_entry =
  attribute :: string
  top_value :: pyfloat

record metric =
  metric_value :: "pyfloat option"
  metric_formatted :: "string option"

record summary =
  total_attributes_processed :: nat
  successful_extractions :: nat
  extraction_rate :: string
  top_values :: "top_entry list option"
  key_insurance_metrics :: "(string \<times> metric) list"

text \<open>
  \<open>top_values\<close> is \<open>None\<close> where the order of the sorted list is not modelled (see
  \<open>py_sort_reverse\<close> below). The result of the method is the summary, or the dict with
  the one key \<^verbatim>\<open>error\<close>.
\<close>

datatype summary_result = Summary (the_summary: summary) | SummaryError string

text \<open>
  The loop of lines 109 to 115, with the counter and the list it appends to.
\<close>

fun summary_loop ::
  "formatted_data \<Rightarrow> nat \<times> top_entry list \<Rightarrow> py_exn + (nat \<times> top_entry list)" where
  "summary_loop [] acc = Inr acc"
| "summary_loop ((attr, d) # rest) (total_extracted, numeric_values) =
     (case entry_get d of
        Inl e \<Rightarrow> Inl e
      | Inr r \<Rightarrow>
          if status r = ''extracted'' then
            (case numeric_value r of
               None \<Rightarrow> summary_loop rest (total_extracted, numeric_values)
             | Some x \<Rightarrow>
                 summary_loop rest
                   (total_extracted + 1,
                    numeric_values @ [\<lparr>attribute = attr, top_value = x\<rparr>]))
          else summary_loop rest (total_extracted, numeric_values))"

text \<open>
  \<^verbatim>\<open>list.sort(key=..., reverse=True)\<close> compares keys with \<^verbatim>\<open><\<close> only. CPython
  reverses the list, sorts it into ascending order with a stable sort, and reverses it
  again. For fewer than 64 elements (CPython up to version 3.12) the ascending sort is:
  find the run the list starts with (\<^verbatim>\<open>count_run\<close>), which is either not descending
  or strictly descending, reverse it in the latter case, and insert each further element
  at the place a binary search gives (\<^verbatim>\<open>binarysort\<close>).
\<close>

fun run_desc :: "('a \<Rightarrow> pyfloat) \<Rightarrow> 'a \<Rightarrow> 'a list \<Rightarrow> nat" where
  "run_desc key prev [] = 0"
| "run_desc key prev (x # xs) =
     (if py_lt (key x) (key prev) then Suc (run_desc key x xs) else 0)"

fun run_asc :: "('a \<Rightarrow> pyfloat) \<Rightarrow> 'a \<Rightarrow> 'a list \<Rightarrow> nat" where
  "run_asc key prev [] = 0"
| "run_asc key prev (x # xs) =
     (if py_lt (key x) (key prev) then 0 else Suc (run_asc key x xs))"

text \<open>The length of the first run, and whether it is strictly descending.\<close>

fun count_run :: "('a \<Rightarrow> pyfloat) \<Rightarrow> 'a list \<Rightarrow> nat \<times> bool" where
  "count_run key [] = (0, False)"
| "count_run key [x] = (1, False)"
| "count_run key (x # y # zs) =
     (if py_lt (key y) (key x) then (2 + run_desc key y zs, True)
      else (2 + run_asc key y zs, False))"

text \<open>
  The binary search of \<^verbatim>\<open>binarysort\<close> for the place of \<open>x\<close> in \<open>ys\<close>, between the
  indices \<open>l\<close> and \<open>r\<close>.
\<close>

function bisect :: "('a \<Rightarrow> pyfloat) \<Rightarrow> 'a \<Rightarrow> 'a list \<Rightarrow> nat \<Rightarrow> nat \<Rightarrow> nat" where
  "bisect key x ys l r =
     (if l < r then
        (if py_lt (key x) (key (ys ! (l + (r - l) div 2)))
         then bisect key x ys l (l + (r - l) div 2)
         else bisect key x ys (l + (r - l) div 2 + 1) r)
      else l)"
  by pat_completeness auto
termination
  by (relation "measure (\<lambda>(key, x, ys, l, r). r - l)") auto

definition binary_insert :: "('a \<Rightarrow> pyfloat) \<Rightarrow> 'a list \<Rightarrow> 'a \<Rightarrow> 'a list" where
  "binary_insert key ys x =
     (let i = bisect key x ys 0 (length ys) in take i ys @ [x] @ drop i ys)"

definition binarysort :: "('a \<Rightarrow> pyfloat) \<Rightarrow> 'a list \<Rightarrow> 'a list \<Rightarrow> 'a list" where
  "binarysort key run rest = foldl (binary_insert key) run rest"

definition sort_short :: "('a \<Rightarrow> pyfloat) \<Rightarrow> 'a list \<Rightarrow> 'a list" where
  "sort_short key xs =
     (let (n, descending) = count_run key xs; run = take n xs
      in binarysort key (if descending then rev run else run) (drop n xs))"

text \<open>
  From 64 elements on CPython merges several runs. When \<^verbatim>\<open><\<close> orders the keys, that is
  when no key is a NaN, the result is that of any stable sort, so it is the one above.
  With a NaN among 64 or more keys the order that CPython gives is not modelled: the
  result is \<open>None\<close>.
\<close>

definition py_sort_reverse :: "('a \<Rightarrow> pyfloat) \<Rightarrow> 'a list \<Rightarrow> 'a list option" where
  "py_sort_reverse key xs =
     (if length xs < 64 \<or> FNaN \<notin> key ` set xs then Some (rev (sort_short key (rev xs)))
      else None)"

text \<open>
  \<^verbatim>\<open>_extract_key_metrics\<close>: the nine labels in the order of \<^verbatim>\<open>key_mappings\<close>.
\<close>

definition key_mappings :: "(string \<times> string) list" where
  "key_mappings =
     [(''Total Insured Value'', ''total_insured_value''),
      (''Quoted Amount'', ''quoted_amount''),
      (''Limit Amount'', ''limit_amount''),
      (''Limit per occurrence'', ''limit_per_occurrence''),
      (''Attachment Point'', ''attachment_point''),
      (''Annual Premium'', ''annual_premium''),
      (''100 % Annual Premium'', ''full_annual_premium''),
      (''Premium due'', ''premium_due''),
      (''100% layer premium w/o terrorism'', ''layer_premium_no_terrorism'')]"

fun metrics_loop ::
  "formatted_data \<Rightarrow> (string \<times> string) list \<Rightarrow> (string \<times> metric) list
   \<Rightarrow> py_exn + (string \<times> metric) list" where
  "metrics_loop fd [] metrics = Inr metrics"
| "metrics_loop fd ((original_key, standard_key) # rest) metrics =
     (case map_of fd original_key of
        None \<Rightarrow> metrics_loop fd rest metrics
      | Some d \<Rightarrow>
          (case entry_get d of
             Inl e \<Rightarrow> Inl e
           | Inr r \<Rightarrow>
               if status r = ''extracted'' then
                 metrics_loop fd rest
                   (metrics @ [(standard_key,
                      \<lparr>metric_value = numeric_value r,
                       metric_formatted = formatted_value r\<rparr>)])
               else metrics_loop fd rest metrics))"

definition extract_key_metrics :: "formatted_data \<Rightarrow> py_exn + (string \<times> metric) list" where
  "extract_key_metrics fd = metrics_loop fd key_mappings []"

text \<open>Line 123: the rate, with the division behind the test of the total.\<close>

definition rate_text :: "nat \<Rightarrow> nat \<Rightarrow> py_exn + string" where
  "rate_text total_extracted total_attributes =
     (if 0 < total_attributes then
        (case py_truediv total_extracted total_attributes of
           Inl e \<Rightarrow> Inl e
         | Inr q \<Rightarrow> Inr (format_f False 1 (py_mul q (float_of_int 100)) @ ''%''))
      else Inr ''0%'')"

text \<open>The body of the \<^verbatim>\<open>try\<close> of \<^verbatim>\<open>_create_summary\<close>.\<close>

definition create_summary_try :: "formatted_data \<Rightarrow> py_exn + summary" where
  "create_summary_try fd =
     (case summary_loop fd (0, []) of
        Inl e \<Rightarrow> Inl e
      | Inr (total_extracted, numeric_values) \<Rightarrow>
          (case rate_text total_extracted (length fd) of
             Inl e \<Rightarrow> Inl e
           | Inr rate \<Rightarrow>
               (case extract_key_metrics fd of
                  Inl e \<Rightarrow> Inl e
                | Inr metrics \<Rightarrow>
                    Inr \<lparr>total_attributes_processed = length fd,
                         successful_extractions = total_extracted,
                         extraction_rate = rate,
                         top_values = map_option (take 5) (py_sort_reverse top_value numeric_values),
                         key_insurance_metrics = metrics\<rparr>)))"

definition create_summary :: "formatted_data \<Rightarrow> summary_result" where
  "create_summary fd =
     (case create_summary_try fd of
        Inr s \<Rightarrow> Summary s
      | Inl e \<Rightarrow> SummaryError (exn_str e))"

subsection \<open>The consistency validator \<^verbatim>\<open>_validate_data_consistency\<close>\<close>

record consistency_check =
  check :: string
  check_status :: string
  message :: string

record validation =
  validation_status :: string
  warnings :: "string list"
  errors :: "string list"
  consistency_checks :: "consistency_check list"

text \<open>
  The loop of lines 178 to 180 fills the dict \<^verbatim>\<open>values\<close>, which is only looked up:
  a map.
\<close>

fun collect_values ::
  "formatted_data \<Rightarrow> (string \<rightharpoonup> pyfloat) \<Rightarrow> py_exn + (string \<rightharpoonup> pyfloat)" where
  "collect_values [] vals = Inr vals"
| "collect_values ((attr, d) # rest) vals =
     (case entry_get d of
        Inl e \<Rightarrow> Inl e
      | Inr r \<Rightarrow>
          if status r = ''extracted'' then
            (case numeric_value r of
               None \<Rightarrow> collect_values rest vals
             | Some x \<Rightarrow> collect_values rest (vals(attr \<mapsto> x)))
          else collect_values rest vals)"

text \<open>The text \<^verbatim>\<open>${x:,.2f}\<close> of the messages.\<close>

definition money :: "pyfloat \<Rightarrow> string" where
  "money x = ''$'' @ format_f True 2 x"

text \<open>Lines 183 to 193: the quoted amount against the limit amount.\<close>

definition check_quoted_limit :: "(string \<rightharpoonup> pyfloat) \<Rightarrow> validation \<Rightarrow> validation" where
  "check_quoted_limit vals v =
     (case vals ''Quoted Amount'' of
        None \<Rightarrow> v
      | Some q \<Rightarrow>
          (case vals ''Limit Amount'' of
             None \<Rightarrow> v
           | Some l \<Rightarrow>
               if py_eq q l then
                 v\<lparr>consistency_checks := consistency_checks v @
                     [\<lparr>check = ''Quoted Amount vs Limit Amount'',
                       check_status = ''consistent'',
                       message = ''Quoted Amount equals Limit Amount as expected''\<rparr>]\<rparr>
               else
                 v\<lparr>warnings := warnings v @
                     [''Quoted Amount ('' @ money q @ '') differs from Limit Amount ('' @
                      money l @ '')'']\<rparr>))"

text \<open>Lines 196 to 206: the premium due against the annual premium.\<close>

definition check_premium :: "(string \<rightharpoonup> pyfloat) \<Rightarrow> validation \<Rightarrow> validation" where
  "check_premium vals v =
     (case vals ''Premium due'' of
        None \<Rightarrow> v
      | Some p \<Rightarrow>
          (case vals ''Annual Premium'' of
             None \<Rightarrow> v
           | Some a \<Rightarrow>
               if py_eq p a then
                 v\<lparr>consistency_checks := consistency_checks v @
                     [\<lparr>check = ''Premium due vs Annual Premium'',
                       check_status = ''consistent'',
                       message = ''Premium due equals Annual Premium''\<rparr>]\<rparr>
               else
                 v\<lparr>warnings := warnings v @
                     [''Premium due ('' @ money p @ '') differs from Annual Premium ('' @
                      money a @ '')'']\<rparr>))"

text \<open>Lines 209 to 214: the range of the total insured value.\<close>

definition check_tiv_range :: "(string \<rightharpoonup> pyfloat) \<Rightarrow> validation \<Rightarrow> validation" where
  "check_tiv_range vals v =
     (case vals ''Total Insured Value'' of
        None \<Rightarrow> v
      | Some tiv \<Rightarrow>
          if py_lt tiv (float_of_int 1000000) then
            v\<lparr>warnings := warnings v @ [''Total Insured Value seems low: '' @ money tiv]\<rparr>
          else if py_gt tiv (float_of_int 100000000000) then
            v\<lparr>warnings := warnings v @
                [''Total Insured Value seems very high: '' @ money tiv]\<rparr>
          else v)"

text \<open>Lines 217 to 220: the overall status.\<close>

definition set_overall_status :: "validation \<Rightarrow> validation" where
  "set_overall_status v =
     (if errors v \<noteq> [] then v\<lparr>validation_status := ''failed''\<rparr>
      else if warnings v \<noteq> [] then v\<lparr>validation_status := ''warnings''\<rparr>
      else v)"

text \<open>
  The body of the \<^verbatim>\<open>try\<close>: the dict \<^verbatim>\<open>validation\<close> as the body leaves it, and the
  exception that ended the body, if one did. The dict is changed in place, so what the
  body appended before an exception stays.
\<close>

definition validate_try :: "formatted_data \<Rightarrow> validation \<Rightarrow> validation \<times> py_exn option" where
  "validate_try fd v =
     (case collect_values fd Map.empty of
        Inl e \<Rightarrow> (v, Some e)
      | Inr vals \<Rightarrow>
          (set_overall_status
             (check_tiv_range vals (check_premium vals (check_quoted_limit vals v))),
           None))"

definition initial_validation :: validation where
  "initial_validation =
     \<lparr>validation_status = ''passed'', warnings = [], errors = [], consistency_checks = []\<rparr>"

definition validate_data_consistency :: "formatted_data \<Rightarrow> validation" where
  "validate_data_consistency fd =
     (case validate_try fd initial_validation of
        (v, None) \<Rightarrow> v
      | (v, Some e) \<Rightarrow>
          v\<lparr>validation_status := ''error'',
            errors := errors v @ [''Validation error: '' @ exn_str e]\<rparr>)"

subsection \<open>The comparison builder \<^verbatim>\<open>create_comparison_report\<close>\<close>

text \<open>
  A report as the comparison reads it: the keys \<^verbatim>\<open>extracted_data\<close> and
  \<^verbatim>\<open>source_files\<close>, each of which may be missing (\<open>None\<close>), and in the latter the key
  \<^verbatim>\<open>pdf_filename\<close>.
\<close>

record file_names =
  pdf_filename :: "string option"
  excel_filename :: "string option"

record extraction =
  extracted_data :: "formatted_data option"
  source_files :: "file_names option"

record comparison_entry =
  document_index :: nat
  document_name :: string
  cmp_value :: "pyfloat option"
  formatted :: "string option"
  entry_status :: string

text \<open>
  The report, without the time stamp and the empty \<^verbatim>\<open>summary_statistics\<close>. The dict
  \<^verbatim>\<open>attribute_comparison\<close> is filled in the iteration order of a \<^verbatim>\<open>set\<close>, which is
  not fixed: it is a map.
\<close>

record comparison =
  total_documents :: nat
  attribute_comparison :: "string \<rightharpoonup> comparison_entry list"

datatype comparison_result = Comparison comparison | ComparisonError string

text \<open>Lines 244 to 247: the attributes of all reports.\<close>

definition attributes_of :: "extraction \<Rightarrow> string list" where
  "attributes_of ex = (case extracted_data ex of None \<Rightarrow> [] | Some fd \<Rightarrow> map fst fd)"

definition all_attributes :: "extraction list \<Rightarrow> string list" where
  "all_attributes extractions = remdups (concat (map attributes_of extractions))"

text \<open>Line 257: the name of a document.\<close>

definition document_name_of :: "nat \<Rightarrow> extraction \<Rightarrow> string" where
  "document_name_of i ex =
     (case source_files ex of
        None \<Rightarrow> ''document_'' @ dec_digits i
      | Some sf \<Rightarrow>
          (case pdf_filename sf of
             None \<Rightarrow> ''document_'' @ dec_digits i
           | Some n \<Rightarrow> n))"

text \<open>
  Lines 252 to 261: the loop over \<^verbatim>\<open>enumerate(extractions)\<close> for one attribute, from
  index \<open>i\<close> on.
\<close>

fun attr_data_loop ::
  "string \<Rightarrow> nat \<Rightarrow> extraction list \<Rightarrow> comparison_entry list
   \<Rightarrow> py_exn + comparison_entry list" where
  "attr_data_loop attr i [] attr_data = Inr attr_data"
| "attr_data_loop attr i (ex # rest) attr_data =
     (case extracted_data ex of
        None \<Rightarrow> attr_data_loop attr (Suc i) rest attr_data
      | Some fd \<Rightarrow>
          (case map_of fd attr of
             None \<Rightarrow> attr_data_loop attr (Suc i) rest attr_data
           | Some d \<Rightarrow>
               (case entry_get d of
                  Inl e \<Rightarrow> Inl e
                | Inr r \<Rightarrow>
                    attr_data_loop attr (Suc i) rest
                      (attr_data @
                       [\<lparr>document_index = i,
                         document_name = document_name_of i ex,
                         cmp_value = numeric_value r,
                         formatted = formatted_value r,
                         entry_status = status r\<rparr>]))))"

text \<open>Lines 250 to 263: the loop over the attributes.\<close>

fun attributes_loop ::
  "string list \<Rightarrow> extraction list \<Rightarrow> (string \<rightharpoonup> comparison_entry list)
   \<Rightarrow> py_exn + (string \<rightharpoonup> comparison_entry list)" where
  "attributes_loop [] extractions acc = Inr acc"
| "attributes_loop (attr # attrs) extractions acc =
     (case attr_data_loop attr 0 extractions [] of
        Inl e \<Rightarrow> Inl e
      | Inr attr_data \<Rightarrow> attributes_loop attrs extractions (acc(attr \<mapsto> attr_data)))"

definition create_comparison_report :: "extraction list \<Rightarrow> comparison_result" where
  "create_comparison_report extractions =
     (if length extractions < 2 then
        ComparisonError ''Need at least 2 extractions for comparison''
      else
        (case attributes_loop (all_attributes extractions) extractions Map.empty of
           Inl e \<Rightarrow> ComparisonError (''Comparison error: '' @ exn_str e)
         | Inr ac \<Rightarrow>
             Comparison
               \<lparr>total_documents = length extractions, attribute_comparison = ac\<rparr>))"

subsection \<open>The entry point \<^verbatim>\<open>format_extraction_results\<close>\<close>

text \<open>
  The report of line 25, without the time stamp. Its handler (line 39) takes what the
  body raises; the three methods the body calls return on every argument, so the body
  raises nothing and the model has the one result.
\<close>

record formatted_report =
  success :: bool
  report_files :: file_names
  report_data :: formatted_data
  report_summary :: summary_result
  report_validation :: validation

definition format_extraction_results ::
  "(string \<times> string option) list \<Rightarrow> string \<Rightarrow> string \<Rightarrow> formatted_report" where
  "format_extraction_results extracted pdf excel =
     (let fd = map (\<lambda>(attribute, v). (attribute, Entry (format_value v))) extracted
      in \<lparr>success = True,
          report_files = \<lparr>pdf_filename = Some pdf, excel_filename = Some excel\<rparr>,
          report_data = fd,
          report_summary = create_summary fd,
          report_validation = validate_data_consistency fd\<rparr>)"

subsection \<open>Normalized maps\<close>

text \<open>
  A normalized map of the specification: every entry is a dict with the fields of
  \<open>normalized_value\<close>. \<open>numeric_of m a\<close> is the number of attribute \<open>a\<close> when its
  entry has the status \<^verbatim>\<open>extracted\<close> and a numeric value.
\<close>

definition entries_of :: "(string \<times> normalized_value) list \<Rightarrow> formatted_data" where
  "entries_of m = map (\<lambda>(a, r). (a, Entry r)) m"

definition numeric_of :: "(string \<times> normalized_value) list \<Rightarrow> string \<Rightarrow> pyfloat option" where
  "numeric_of m a =
     (case map_of m a of
        None \<Rightarrow> None
      | Some r \<Rightarrow> if status r = ''extracted'' then numeric_value r else None)"

text \<open>
  For the comparison: a report whose entries are all dicts; the entry of an attribute in
  a report, if the report has the attribute; and the elements that report \<open>i\<close> gives
  to the list of an attribute (one, or none when the report lacks the attribute).
\<close>

definition dicts_only :: "extraction \<Rightarrow> bool" where
  "dicts_only ex =
     (case extracted_data ex of None \<Rightarrow> True | Some fd \<Rightarrow> NotADict \<notin> snd ` set fd)"

definition report_entry :: "extraction \<Rightarrow> string \<Rightarrow> normalized_value option" where
  "report_entry ex a =
     (case extracted_data ex of
        None \<Rightarrow> None
      | Some fd \<Rightarrow> (case map_of fd a of Some (Entry r) \<Rightarrow> Some r | _ \<Rightarrow> None))"

definition entries_at :: "nat \<Rightarrow> extraction \<Rightarrow> string \<Rightarrow> comparison_entry list" where
  "entries_at i ex a =
     (case report_entry ex a of
        None \<Rightarrow> []
      | Some r \<Rightarrow>
          [\<lparr>document_index = i,
            document_name =
              (case source_files ex of
                 None \<Rightarrow> ''document_'' @ dec_digits i
               | Some sf \<Rightarrow>
                   (case pdf_filename sf of
                      None \<Rightarrow> ''document_'' @ dec_digits i
                    | Some n \<Rightarrow> n)),
            cmp_value = numeric_value r, formatted = formatted_value r,
            entry_status = status r\<rparr>])"

text \<open>
  The dict that the normalizer returns for a number \<open>q\<close>, for the examples.
\<close>

definition extracted_number :: "rat \<Rightarrow> normalized_value" where
  "extracted_number q =
     \<lparr>raw_value = None, formatted_value = Some (formatted_currency (FNum q)),
      numeric_value = Some (FNum q), currency = Some ''USD'', status = ''extracted''\<rparr>"

definition example_reports :: "extraction list" where
  "example_reports =
     [\<lparr>extracted_data =
         Some [(''Limit Amount'', Entry (extracted_number 5000000))],
       source_files = Some \<lparr>pdf_filename = Some ''a.pdf'', excel_filename = None\<rparr>\<rparr>,
      \<lparr>extracted_data = None, source_files = None\<rparr>,
      \<lparr>extracted_data =
         Some [(''Premium due'', Entry (extracted_number 1200)),
               (''Limit Amount'', Entry (extracted_number 4900000))],
       source_files = None\<rparr>]"

section \<open>The value normalizer\<close>

subsection \<open>What \<^verbatim>\<open>float\<close> raises, and the two results of the \<^verbatim>\<open>try\<close>\<close>

lemma py_float_raises_ValueError:
  "py_float s = Inl e \<Longrightarrow> \<exists>m. e = ValueError m"
  by (auto simp: py_float_def float_error_def Let_def
      split: option.splits if_splits prod.splits)

lemma format_value_try_returns: "\<exists>r. format_value_try s = Inr r"
proof (cases "py_float (clean_value s)")
  case (Inl e)
  then obtain m where "e = ValueError m"
    using py_float_raises_ValueError by blast
  with Inl show ?thesis by (simp add: format_value_try_def)
next
  case (Inr x)
  then show ?thesis by (simp add: format_value_try_def)
qed

lemma format_value_try_cases:
  "format_value_try s = Inr r \<Longrightarrow>
     (\<exists>x. r = \<lparr>raw_value = Some s, formatted_value = Some (formatted_currency x),
                numeric_value = Some x, currency = Some ''USD'', status = ''extracted''\<rparr>) \<or>
     r = \<lparr>raw_value = Some s, formatted_value = Some (clean_value s),
           numeric_value = None, currency = None, status = ''extracted_non_numeric''\<rparr>"
  by (auto simp: format_value_try_def Let_def split: sum.splits py_exn.splits)

lemma format_value_invariant:
  "(numeric_value (format_value v) \<noteq> None) = (status (format_value v) = ''extracted'') \<and>
   currency (format_value v) =
     (if status (format_value v) = ''extracted'' then Some ''USD'' else None)"
proof (cases v)
  case None
  then show ?thesis by (simp add: format_value_def)
next
  case (Some s)
  show ?thesis
  proof (cases "s = [] \<or> s \<in> set [''NOT_FOUND'', ''ERROR'']")
    case True
    with Some show ?thesis by (auto simp: format_value_def)
  next
    case False
    obtain r where r: "format_value_try s = Inr r"
      using format_value_try_returns by blast
    from False Some r have fv: "format_value v = r" by (simp add: format_value_def)
    from format_value_try_cases [OF r] show ?thesis unfolding fv by auto
  qed
qed

text \<open>
  Claim C2. For a raw value that is absent (\<^verbatim>\<open>None\<close>), the empty string, or one of the
  markers \<^verbatim>\<open>NOT_FOUND\<close> and \<^verbatim>\<open>ERROR\<close>, the normalizer returns the status
  \<^verbatim>\<open>not_found\<close>, no formatted value, no numeric value and no currency, and the raw
  value as it was given.
\<close>

theorem format_value_not_found:
  "v \<in> {None, Some [], Some ''NOT_FOUND'', Some ''ERROR''} \<Longrightarrow>
   format_value v =
     \<lparr>raw_value = v, formatted_value = None, numeric_value = None, currency = None,
      status = ''not_found''\<rparr>"
  by (auto simp: format_value_def)

theorem format_value_not_found_witness:
  "format_value None =
     \<lparr>raw_value = None, formatted_value = None, numeric_value = None, currency = None,
      status = ''not_found''\<rparr> \<and>
   format_value (Some []) =
     \<lparr>raw_value = Some [], formatted_value = None, numeric_value = None, currency = None,
      status = ''not_found''\<rparr> \<and>
   format_value (Some ''NOT_FOUND'') =
     \<lparr>raw_value = Some ''NOT_FOUND'', formatted_value = None, numeric_value = None,
      currency = None, status = ''not_found''\<rparr> \<and>
   format_value (Some ''ERROR'') =
     \<lparr>raw_value = Some ''ERROR'', formatted_value = None, numeric_value = None,
      currency = None, status = ''not_found''\<rparr>"
  using format_value_not_found [of None] format_value_not_found [of "Some []"]
    format_value_not_found [of "Some ''NOT_FOUND''"]
    format_value_not_found [of "Some ''ERROR''"]
  by simp

text \<open>
  Claim C3. In every result of the normalizer the numeric value is set exactly when the
  status is \<^verbatim>\<open>extracted\<close>, and the currency is \<^verbatim>\<open>USD\<close> then and empty otherwise. The
  entries of the data of a report are results of the normalizer, so they have the
  property too.
\<close>

theorem numeric_value_iff_extracted:
  "((numeric_value (format_value v) \<noteq> None) = (status (format_value v) = ''extracted'')) \<and>
   currency (format_value v) =
     (if status (format_value v) = ''extracted'' then Some ''USD'' else None) \<and>
   (\<forall>a d. (a, d) \<in> set (report_data (format_extraction_results extracted pdf excel)) \<longrightarrow>
      (\<exists>r. d = Entry r \<and>
         ((numeric_value r \<noteq> None) = (status r = ''extracted'')) \<and>
         currency r = (if status r = ''extracted'' then Some ''USD'' else None)))"
proof -
  have "\<exists>r. d = Entry r \<and>
         ((numeric_value r \<noteq> None) = (status r = ''extracted'')) \<and>
         currency r = (if status r = ''extracted'' then Some ''USD'' else None)"
    if "(a, d) \<in> set (report_data (format_extraction_results extracted pdf excel))"
    for a d
  proof -
    from that obtain w where "d = Entry (format_value w)"
      by (auto simp: format_extraction_results_def Let_def)
    with format_value_invariant [of w] show ?thesis by blast
  qed
  with format_value_invariant [of v] show ?thesis by blast
qed

text \<open>
  Claim C10. For a raw value that is a string the normalizer never returns the status
  \<^verbatim>\<open>format_error\<close>: nothing in the body of the outer \<^verbatim>\<open>try\<close> raises an exception
  that the inner handler does not take, so the status is one of \<^verbatim>\<open>not_found\<close>,
  \<^verbatim>\<open>extracted\<close> and \<^verbatim>\<open>extracted_non_numeric\<close>.
\<close>

theorem format_value_status:
  "status (format_value (Some s)) \<in> {''not_found'', ''extracted'', ''extracted_non_numeric''} \<and>
   status (format_value (Some s)) \<noteq> ''format_error''"
proof (cases "s = [] \<or> s \<in> set [''NOT_FOUND'', ''ERROR'']")
  case True
  then show ?thesis by (auto simp: format_value_def)
next
  case False
  obtain r where r: "format_value_try s = Inr r"
    using format_value_try_returns by blast
  from False r have fv: "format_value (Some s) = r" by (simp add: format_value_def)
  from format_value_try_cases [OF r] show ?thesis unfolding fv by auto
qed

theorem format_value_status_witness:
  "status (format_value (Some ''Pending review'')) \<in>
     {''not_found'', ''extracted'', ''extracted_non_numeric''} \<and>
   status (format_value (Some ''Pending review'')) \<noteq> ''format_error''"
  by (rule format_value_status)

section \<open>The consistency validator\<close>

lemma collect_values_entries:
  "distinct (map fst m) \<Longrightarrow>
   collect_values (entries_of m) vals =
     Inr (\<lambda>a. case numeric_of m a of Some x \<Rightarrow> Some x | None \<Rightarrow> vals a)"
proof (induction m arbitrary: vals)
  case Nil
  then show ?case by (simp add: entries_of_def numeric_of_def)
next
  case (Cons p m)
  obtain a r where p: "p = (a, r)" by (cases p)
  from Cons.prems p have d: "distinct (map fst m)" and na: "a \<notin> fst ` set m" by auto
  from na have none: "map_of m a = None" by (simp add: map_of_eq_None_iff)
  have IH: "\<And>vals. collect_values (entries_of m) vals =
     Inr (\<lambda>a. case numeric_of m a of Some x \<Rightarrow> Some x | None \<Rightarrow> vals a)"
    using Cons.IH [OF d] .
  have step: "collect_values (entries_of (p # m)) vals =
    collect_values (entries_of m)
      (if status r = ''extracted'' then
         (case numeric_value r of None \<Rightarrow> vals | Some x \<Rightarrow> vals(a \<mapsto> x)) else vals)"
    by (simp add: p entries_of_def entry_get_def split: option.splits)
  show ?case unfolding step IH
    using none by (auto simp: p numeric_of_def fun_eq_iff split: option.splits)
qed

lemma validate_entries:
  assumes "distinct (map fst m)"
  shows "validate_data_consistency (entries_of m) =
     set_overall_status
       (check_tiv_range (numeric_of m)
          (check_premium (numeric_of m)
             (check_quoted_limit (numeric_of m) initial_validation)))"
proof -
  have "collect_values (entries_of m) Map.empty = Inr (numeric_of m)"
    unfolding collect_values_entries [OF assms]
    by (auto simp: fun_eq_iff split: option.splits)
  then show ?thesis
    by (simp add: validate_data_consistency_def validate_try_def)
qed


lemma rules_errors [simp]:
  "errors (check_quoted_limit vals v) = errors v"
  "errors (check_premium vals v) = errors v"
  "errors (check_tiv_range vals v) = errors v"
  by (auto simp: check_quoted_limit_def check_premium_def check_tiv_range_def
      split: option.splits)



lemma quoted_limit_other:
  "filter (\<lambda>c. check c = ''Premium due vs Annual Premium'')
     (consistency_checks (check_quoted_limit vals v)) =
   filter (\<lambda>c. check c = ''Premium due vs Annual Premium'') (consistency_checks v) \<and>
   filter (prefix ''Premium due ('') (warnings (check_quoted_limit vals v)) =
   filter (prefix ''Premium due ('') (warnings v) \<and>
   filter (prefix ''Total Insured Value'') (warnings (check_quoted_limit vals v)) =
   filter (prefix ''Total Insured Value'') (warnings v)"
  by (simp add: check_quoted_limit_def split: option.splits)

lemma premium_other:
  "filter (\<lambda>c. check c = ''Quoted Amount vs Limit Amount'')
     (consistency_checks (check_premium vals v)) =
   filter (\<lambda>c. check c = ''Quoted Amount vs Limit Amount'') (consistency_checks v) \<and>
   filter (prefix ''Quoted Amount ('') (warnings (check_premium vals v)) =
   filter (prefix ''Quoted Amount ('') (warnings v) \<and>
   filter (prefix ''Total Insured Value'') (warnings (check_premium vals v)) =
   filter (prefix ''Total Insured Value'') (warnings v)"
  by (simp add: check_premium_def split: option.splits)

lemma tiv_other:
  "consistency_checks (check_tiv_range vals v) = consistency_checks v \<and>
   filter (prefix ''Quoted Amount ('') (warnings (check_tiv_range vals v)) =
   filter (prefix ''Quoted Amount ('') (warnings v) \<and>
   filter (prefix ''Premium due ('') (warnings (check_tiv_range vals v)) =
   filter (prefix ''Premium due ('') (warnings v)"
  by (simp add: check_tiv_range_def split: option.splits)

lemma tiv_fields:
  "vals ''Total Insured Value'' = Some tiv \<Longrightarrow>
   warnings (check_tiv_range vals v) =
     warnings v @
       (if py_lt tiv (float_of_int 1000000) then
          [''Total Insured Value seems low: '' @ money tiv]
        else if py_gt tiv (float_of_int 100000000000) then
          [''Total Insured Value seems very high: '' @ money tiv]
        else [])"
  by (simp add: check_tiv_range_def)

lemma overall_fields [simp]:
  "warnings (set_overall_status v) = warnings v"
  "errors (set_overall_status v) = errors v"
  "consistency_checks (set_overall_status v) = consistency_checks v"
  by (simp_all add: set_overall_status_def)

lemma overall_status:
  "validation_status (set_overall_status v) =
     (if errors v \<noteq> [] then ''failed''
      else if warnings v \<noteq> [] then ''warnings'' else validation_status v)"
  by (simp add: set_overall_status_def)

lemma rules_status [simp]:
  "validation_status (check_quoted_limit vals v) = validation_status v"
  "validation_status (check_premium vals v) = validation_status v"
  "validation_status (check_tiv_range vals v) = validation_status v"
  by (auto simp: check_quoted_limit_def check_premium_def check_tiv_range_def
      split: option.splits)



lemma round_half_even_of_int: "round_half_even (of_int k) = k"
  by (simp add: round_half_even_def)

lemma pad_digits_numeral:
  "pad_digits 1 n = [digit_char n]"
  "pad_digits 2 n = [digit_char (n div 10), digit_char n]"
  "pad_digits 3 n = [digit_char (n div 10 div 10), digit_char (n div 10), digit_char n]"
  by (simp_all add: numeral_2_eq_2 numeral_3_eq_3)



lemma money_500000: "money (FNum 500000) = ''$500,000.00''"
  using round_half_even_of_int [of 50000000]
  by (simp add: money_def fixed_digits_def digit_char_def pad_digits_numeral)



lemma py_ge_not_lt: "py_ge x y \<Longrightarrow> \<not> py_lt x y"
  by (auto simp: py_ge_def py_lt_def py_eq_def)

lemma checks_names:
  "set (map check (consistency_checks v)) \<subseteq> S \<Longrightarrow>
   ''Quoted Amount vs Limit Amount'' \<in> S \<Longrightarrow>
   set (map check (consistency_checks (check_quoted_limit vals v))) \<subseteq> S"
  "set (map check (consistency_checks v)) \<subseteq> S \<Longrightarrow>
   ''Premium due vs Annual Premium'' \<in> S \<Longrightarrow>
   set (map check (consistency_checks (check_premium vals v))) \<subseteq> S"
  by (auto simp: check_quoted_limit_def check_premium_def split: option.splits)

text \<open>
  Claim C7. In a normalized map in which \<^verbatim>\<open>Total Insured Value\<close> has the status
  \<^verbatim>\<open>extracted\<close> and a numeric value \<open>tiv\<close>, the warnings of the range rule (those
  that start with the name of the attribute) are: exactly one \<^verbatim>\<open>seems low\<close> warning when
  \<open>tiv < 1000000\<close>, exactly one \<^verbatim>\<open>seems very high\<close> warning when
  \<open>tiv > 100000000000\<close>, and none otherwise; in particular none when
  \<open>1000000 \<le> tiv \<le> 100000000000\<close>, the bounds included. The rule adds no consistency
  check: every check of the result is one of the two pair rules.
\<close>

theorem tiv_range_rule:
  assumes "distinct (map fst m)"
    and "numeric_of m ''Total Insured Value'' = Some tiv"
  shows
  "let v = validate_data_consistency (entries_of m) in
     filter (prefix ''Total Insured Value'') (warnings v) =
       (if py_lt tiv (float_of_int 1000000) then
          [''Total Insured Value seems low: '' @ money tiv]
        else if py_gt tiv (float_of_int 100000000000) then
          [''Total Insured Value seems very high: '' @ money tiv]
        else []) \<and>
     (py_ge tiv (float_of_int 1000000) \<and> py_ge (float_of_int 100000000000) tiv \<longrightarrow>
        filter (prefix ''Total Insured Value'') (warnings v) = []) \<and>
     set (map check (consistency_checks v)) \<subseteq>
       {''Quoted Amount vs Limit Amount'', ''Premium due vs Annual Premium''}"
proof -
  let ?vals = "numeric_of m"
  let ?v1 = "check_quoted_limit ?vals initial_validation"
  let ?v2 = "check_premium ?vals ?v1"
  let ?v3 = "check_tiv_range ?vals ?v2"
  have w2: "filter (prefix ''Total Insured Value'') (warnings ?v2) = []"
    using quoted_limit_other [of ?vals initial_validation] premium_other [of ?vals ?v1]
    by (simp add: initial_validation_def)
  have w3: "filter (prefix ''Total Insured Value'') (warnings ?v3) =
       (if py_lt tiv (float_of_int 1000000) then
          [''Total Insured Value seems low: '' @ money tiv]
        else if py_gt tiv (float_of_int 100000000000) then
          [''Total Insured Value seems very high: '' @ money tiv]
        else [])"
    using tiv_fields [of ?vals tiv ?v2] assms(2) w2 by simp
  have c0: "set (map check (consistency_checks initial_validation)) \<subseteq>
       {''Quoted Amount vs Limit Amount'', ''Premium due vs Annual Premium''}"
    by (simp add: initial_validation_def)
  have c3: "set (map check (consistency_checks ?v3)) \<subseteq>
       {''Quoted Amount vs Limit Amount'', ''Premium due vs Annual Premium''}"
    using checks_names(2) [OF checks_names(1) [OF c0]] tiv_other [of ?vals ?v2] by simp
  have r: "py_ge tiv (float_of_int 1000000) \<and> py_ge (float_of_int 100000000000) tiv \<longrightarrow>
        filter (prefix ''Total Insured Value'') (warnings ?v3) = []"
    unfolding w3 using py_ge_not_lt by (auto simp: py_gt_def)
  show ?thesis
    unfolding validate_entries [OF assms(1)] Let_def
    using w3 c3 r by simp
qed

theorem tiv_range_rule_witness:
  "filter (prefix ''Total Insured Value'')
     (warnings (validate_data_consistency
        (entries_of [(''Total Insured Value'', extracted_number 500000)]))) =
     [''Total Insured Value seems low: $500,000.00''] \<and>
   filter (prefix ''Total Insured Value'')
     (warnings (validate_data_consistency
        (entries_of [(''Total Insured Value'', extracted_number 1000000)]))) = [] \<and>
   filter (prefix ''Total Insured Value'')
     (warnings (validate_data_consistency
        (entries_of [(''Total Insured Value'', extracted_number 100000000000)]))) = []"
proof -
  have n: "numeric_of [(''Total Insured Value'', extracted_number q)] ''Total Insured Value'' =
      Some (FNum q)" for q
    by (simp add: numeric_of_def extracted_number_def)
  have c: "py_lt (FNum 500000) (float_of_int 1000000)"
    "py_ge (FNum 1000000) (float_of_int 1000000)"
    "py_ge (float_of_int 100000000000) (FNum 1000000)"
    "py_ge (FNum 100000000000) (float_of_int 1000000)"
    "py_ge (float_of_int 100000000000) (FNum 100000000000)"
    by (simp_all add: py_lt_def py_ge_def py_eq_def float_of_int_def)
  have d: "distinct (map fst [(''Total Insured Value'', extracted_number q)])" for q
    by simp
  from tiv_range_rule [OF d n, of 500000] c(1)
  have low: "filter (prefix ''Total Insured Value'')
     (warnings (validate_data_consistency
        (entries_of [(''Total Insured Value'', extracted_number 500000)]))) =
     [''Total Insured Value seems low: $500,000.00'']"
    unfolding Let_def money_500000 by simp
  from tiv_range_rule [OF d n, of 1000000] c(2,3)
  have lower: "filter (prefix ''Total Insured Value'')
     (warnings (validate_data_consistency
        (entries_of [(''Total Insured Value'', extracted_number 1000000)]))) = []"
    unfolding Let_def by blast
  from tiv_range_rule [OF d n, of 100000000000] c(4,5)
  have upper: "filter (prefix ''Total Insured Value'')
     (warnings (validate_data_consistency
        (entries_of [(''Total Insured Value'', extracted_number 100000000000)]))) = []"
    unfolding Let_def by blast
  from low lower upper show ?thesis by (intro conjI)
qed

lemma collect_values_raises:
  "NotADict \<in> snd ` set fd \<Longrightarrow>
   collect_values fd vals = Inl (AttributeError none_has_no_get)"
proof (induction fd arbitrary: vals)
  case Nil
  then show ?case by simp
next
  case (Cons p fd)
  obtain a d where p: "p = (a, d)" by (cases p)
  show ?case
  proof (cases d)
    case (Entry r)
    with Cons.prems p have "NotADict \<in> snd ` set fd" by auto
    from Cons.IH [OF this] show ?thesis
      by (simp add: p Entry entry_get_def split: option.splits)
  next
    case NotADict
    then show ?thesis by (simp add: p entry_get_def)
  qed
qed

lemma collect_values_returns:
  "NotADict \<notin> snd ` set fd \<Longrightarrow> \<exists>vals'. collect_values fd vals = Inr vals'"
proof (induction fd arbitrary: vals)
  case Nil
  then show ?case by simp
next
  case (Cons p fd)
  obtain a d where p: "p = (a, d)" by (cases p)
  from Cons.prems p obtain r where d: "d = Entry r" by (cases d) auto
  from Cons.prems have "NotADict \<notin> snd ` set fd" by auto
  from Cons.IH [OF this] show ?case
    by (simp add: p d entry_get_def split: option.splits)
qed

text \<open>
  Claim C8. The validator returns on every map. When the body of its \<^verbatim>\<open>try\<close> ends
  without an exception, the final status is \<^verbatim>\<open>failed\<close> if the result has errors, else
  \<^verbatim>\<open>warnings\<close> if it has warnings, else \<^verbatim>\<open>passed\<close>. When the body raises (an entry
  that is not a dict makes \<^verbatim>\<open>data.get\<close> raise), the result has the status \<^verbatim>\<open>error\<close>
  and the text of the exception, after \<^verbatim>\<open>Validation error: \<close>, appended to the errors of
  the dict as the body left it.
\<close>

theorem validation_status_rule:
  "let v = validate_data_consistency fd in
     (if NotADict \<in> snd ` set fd then
        v = \<lparr>validation_status = ''error'', warnings = [],
             errors = [''Validation error: '' @ none_has_no_get],
             consistency_checks = []\<rparr>
      else
        validation_status v =
          (if errors v \<noteq> [] then ''failed''
           else if warnings v \<noteq> [] then ''warnings'' else ''passed'')) \<and>
     (\<forall>v' e. validate_try fd initial_validation = (v', Some e) \<longrightarrow>
        validation_status v = ''error'' \<and>
        warnings v = warnings v' \<and> consistency_checks v = consistency_checks v' \<and>
        errors v = errors v' @ [''Validation error: '' @ exn_str e])"
proof -
  have handler: "\<forall>v' e. validate_try fd initial_validation = (v', Some e) \<longrightarrow>
        validation_status (validate_data_consistency fd) = ''error'' \<and>
        warnings (validate_data_consistency fd) = warnings v' \<and>
        consistency_checks (validate_data_consistency fd) = consistency_checks v' \<and>
        errors (validate_data_consistency fd) =
          errors v' @ [''Validation error: '' @ exn_str e]"
    by (simp add: validate_data_consistency_def)
  show ?thesis
  proof (cases "NotADict \<in> snd ` set fd")
    case True
    from collect_values_raises [OF True]
    have "validate_data_consistency fd =
        \<lparr>validation_status = ''error'', warnings = [],
         errors = [''Validation error: '' @ none_has_no_get],
         consistency_checks = []\<rparr>"
      by (simp add: validate_data_consistency_def validate_try_def initial_validation_def)
    with True have "if NotADict \<in> snd ` set fd then
        validate_data_consistency fd = \<lparr>validation_status = ''error'', warnings = [],
             errors = [''Validation error: '' @ none_has_no_get],
             consistency_checks = []\<rparr>
      else
        validation_status (validate_data_consistency fd) =
          (if errors (validate_data_consistency fd) \<noteq> [] then ''failed''
           else if warnings (validate_data_consistency fd) \<noteq> [] then ''warnings''
           else ''passed'')"
      by simp
    then show ?thesis unfolding Let_def using handler by (rule conjI)
  next
    case False
    from collect_values_returns [OF False]
    obtain vals where "collect_values fd Map.empty = Inr vals" by blast
    then have "validate_data_consistency fd =
       set_overall_status
         (check_tiv_range vals (check_premium vals (check_quoted_limit vals initial_validation)))"
      by (simp add: validate_data_consistency_def validate_try_def)
    then have "validation_status (validate_data_consistency fd) =
          (if errors (validate_data_consistency fd) \<noteq> [] then ''failed''
           else if warnings (validate_data_consistency fd) \<noteq> [] then ''warnings''
           else ''passed'')"
      by (simp add: overall_status initial_validation_def)
    with False have "if NotADict \<in> snd ` set fd then
        validate_data_consistency fd = \<lparr>validation_status = ''error'', warnings = [],
             errors = [''Validation error: '' @ none_has_no_get],
             consistency_checks = []\<rparr>
      else
        validation_status (validate_data_consistency fd) =
          (if errors (validate_data_consistency fd) \<noteq> [] then ''failed''
           else if warnings (validate_data_consistency fd) \<noteq> [] then ''warnings''
           else ''passed'')"
      by simp
    then show ?thesis unfolding Let_def using handler by (rule conjI)
  qed
qed

theorem validation_status_rule_witness:
  "validate_data_consistency [(''Quoted Amount'', NotADict)] =
     \<lparr>validation_status = ''error'', warnings = [],
      errors = [''Validation error: '' @ none_has_no_get], consistency_checks = []\<rparr> \<and>
   validate_try [(''Quoted Amount'', NotADict)] initial_validation =
     (initial_validation, Some (AttributeError none_has_no_get)) \<and>
   validation_status
     (validate_data_consistency [(''Total Insured Value'', Entry (extracted_number 500000))]) =
     ''warnings'' \<and>
   validation_status
     (validate_data_consistency [(''Total Insured Value'', Entry (extracted_number 5000000))]) =
     ''passed''"
proof -
  have a: "NotADict \<in> snd ` set [(''Quoted Amount'', NotADict)]" by simp
  have t: "validate_try [(''Quoted Amount'', NotADict)] initial_validation =
     (initial_validation, Some (AttributeError none_has_no_get))"
    by (simp add: validate_try_def entry_get_def)
  have b: "NotADict \<notin> snd ` set [(''Total Insured Value'', Entry (extracted_number q))]" for q
    by simp
  have w: "warnings (validate_data_consistency
       [(''Total Insured Value'', Entry (extracted_number 500000))]) \<noteq> []"
    "warnings (validate_data_consistency
       [(''Total Insured Value'', Entry (extracted_number 5000000))]) = []"
    "errors (validate_data_consistency
       [(''Total Insured Value'', Entry (extracted_number q))]) = []" for q
    by (simp_all add: validate_data_consistency_def validate_try_def entry_get_def
        extracted_number_def check_quoted_limit_def check_premium_def check_tiv_range_def
        initial_validation_def py_lt_def py_gt_def float_of_int_def)
  from validation_status_rule [of "[(''Quoted Amount'', NotADict)]"]
    validation_status_rule [of "[(''Total Insured Value'', Entry (extracted_number 500000))]"]
    validation_status_rule [of "[(''Total Insured Value'', Entry (extracted_number 5000000))]"]
    a b t w
  show ?thesis by (simp add: Let_def)
qed

section \<open>Rounding to a float\<close>

lemma binary_exponent_bounds:
  assumes "0 < q"
  shows "2 powi binary_exponent q \<le> q \<and> q < 2 powi (binary_exponent q + 1)"
proof -
  obtain a b where ab: "quotient_of q = (a, b)" by (cases "quotient_of q")
  from quotient_of_denom_pos [OF ab] have b: "0 < b" .
  from quotient_of_div [OF ab] have q: "q = of_int a / of_int b" .
  with assms b have a: "0 < a" by (simp add: zero_less_divide_iff)
  define la where "la = floorlog 2 (nat a)"
  define lb where "lb = floorlog 2 (nat b)"
  define e0 where "e0 = int la - int lb"
  from floorlog_bounds [of "nat a" 2] a
  have a1: "2 ^ (la - 1) \<le> nat a" and a2: "nat a < 2 ^ la" by (simp_all add: la_def)
  from floorlog_bounds [of "nat b" 2] b
  have b1: "2 ^ (lb - 1) \<le> nat b" and b2: "nat b < 2 ^ lb" by (simp_all add: lb_def)
  from a2 a have la: "0 < la" by (cases la) auto
  from b2 b have lb: "0 < lb" by (cases lb) auto
  have ra1: "(2::rat) ^ (la - 1) \<le> of_int a"
    using a1 a by (metis of_nat_le_iff of_nat_numeral of_nat_power of_int_of_nat_eq nat_0_le less_imp_le)
  have ra2: "of_int a < (2::rat) ^ la"
    using a2 a by (metis of_nat_less_iff of_nat_numeral of_nat_power of_int_of_nat_eq nat_0_le less_imp_le)
  have rb1: "(2::rat) ^ (lb - 1) \<le> of_int b"
    using b1 b by (metis of_nat_le_iff of_nat_numeral of_nat_power of_int_of_nat_eq nat_0_le less_imp_le)
  have rb2: "of_int b < (2::rat) ^ lb"
    using b2 b by (metis of_nat_less_iff of_nat_numeral of_nat_power of_int_of_nat_eq nat_0_le less_imp_le)
  have bpos: "(0::rat) < of_int b" using b by simp
  have up: "q < 2 powi (e0 + 1)"
  proof -
    have "q * of_int b = of_int a" using q bpos by simp
    also have "\<dots> < 2 ^ la" by (rule ra2)
    also have "\<dots> = 2 powi (e0 + 1) * 2 ^ (lb - 1)"
    proof -
      have "e0 + 1 + int (lb - 1) = int la" using lb by (simp add: e0_def)
      then have "(2::rat) powi (e0 + 1) * 2 powi int (lb - 1) = 2 powi int la"
        by (metis power_int_add zero_neq_numeral)
      then show ?thesis by simp
    qed
    also have "\<dots> \<le> 2 powi (e0 + 1) * of_int b"
      using rb1 by (simp add: mult_left_mono)
    finally show ?thesis using bpos by simp
  qed
  have low: "2 powi (e0 - 1) \<le> q"
  proof -
    have "2 powi (e0 - 1) * of_int b \<le> 2 powi (e0 - 1) * (2::rat) ^ lb"
      using rb2 by (simp add: mult_left_mono)
    also have "\<dots> = 2 ^ (la - 1)"
    proof -
      have "e0 - 1 + int lb = int (la - 1)" using la by (simp add: e0_def)
      then have "(2::rat) powi (e0 - 1) * 2 powi int lb = 2 powi int (la - 1)"
        by (metis power_int_add zero_neq_numeral)
      then show ?thesis by simp
    qed
    also have "\<dots> \<le> of_int a" by (rule ra1)
    also have "\<dots> = q * of_int b" using q bpos by simp
    finally show ?thesis using bpos by simp
  qed
  have be: "binary_exponent q = (if 2 powi e0 \<le> q then e0 else e0 - 1)"
    by (simp add: binary_exponent_def ab e0_def la_def lb_def)
  show ?thesis
  proof (cases "2 powi e0 \<le> q")
    case True
    with be up show ?thesis by simp
  next
    case False
    with be low show ?thesis by simp
  qed
qed

lemma round_half_even_error: "\<bar>of_int (round_half_even q) - q\<bar> \<le> 1 / 2"
proof -
  have "of_int \<lfloor>q\<rfloor> \<le> q" "q < of_int \<lfloor>q\<rfloor> + 1" by linarith+
  then show ?thesis by (auto simp: round_half_even_def Let_def)
qed

lemma round_half_even_unique:
  assumes "\<bar>q - of_int k\<bar> < 1 / 2"
  shows "round_half_even q = k"
proof -
  from round_half_even_error [of q]
  have "\<bar>(of_int (round_half_even q) :: rat) - of_int k\<bar> < 1"
    using assms by linarith
  then have "\<bar>(of_int (round_half_even q - k) :: rat)\<bar> < 1" by simp
  then have "\<bar>round_half_even q - k\<bar> < 1"
    by (metis of_int_abs of_int_less_1_iff)
  then show ?thesis by simp
qed

lemma round_half_even_mono_int:
  assumes "of_int k \<le> q"
  shows "k \<le> round_half_even q"
proof -
  from assms have "k \<le> \<lfloor>q\<rfloor>" by (simp add: le_floor_iff)
  then show ?thesis by (auto simp: round_half_even_def Let_def)
qed

lemma round_double_exact:
  assumes m: "0 < m" "m < 2 ^ 1024"
    and e: "- 1022 \<le> binary_exponent m"
    and k: "m / 2 powi (binary_exponent m - 52) = of_int k"
  shows "round_double neg m = FNum (if neg then - m else m)"
proof -
  let ?u = "(2::rat) powi (binary_exponent m - 52)"
  have u: "0 < ?u" by simp
  from e have mx: "max (binary_exponent m) (- 1022) = binary_exponent m" by simp
  have r: "of_int (round_half_even (m / ?u)) * ?u = m"
    unfolding k round_half_even_of_int using k u
    by (metis nonzero_divide_eq_eq less_irrefl)
  show ?thesis
    unfolding round_double_def Let_def mx r using m by simp
qed

lemma round_double_of_nat:
  assumes "0 < n" "n < 2 ^ 53"
  shows "round_double neg (of_nat n) = FNum (if neg then - of_nat n else of_nat n)"
proof -
  let ?m = "of_nat n :: rat"
  let ?e = "binary_exponent ?m"
  from assms have m: "0 < ?m" "?m < 2 ^ 53"
    by (simp, metis of_nat_less_iff of_nat_numeral of_nat_power)
  from binary_exponent_bounds [OF m(1)]
  have lo: "2 powi ?e \<le> ?m" and hi: "?m < 2 powi (?e + 1)" by simp_all
  from lo m(2) have "(2::rat) powi ?e < 2 powi 53" by simp
  then have e53: "?e < 53"
    by (rule power_int_le_imp_less_exp [rotated]) simp_all
  from assms(1) have "1 \<le> ?m" by simp
  with hi have one: "1 < (2::rat) powi (?e + 1)" by simp
  have e0: "0 \<le> ?e"
  proof (rule ccontr)
    assume "\<not> 0 \<le> ?e"
    then have "?e + 1 \<le> 0" by simp
    from power_int_increasing [OF this, of "2::rat"] one show False by simp
  qed
  have "?m / 2 powi (?e - 52) = ?m * 2 powi (52 - ?e)"
    by (simp add: power_int_diff field_simps)
  also have "\<dots> = ?m * 2 ^ nat (52 - ?e)"
    using e53 by (simp add: power_int_def)
  also have "\<dots> = of_int (int n * 2 ^ nat (52 - ?e))" by simp
  finally have k: "?m / 2 powi (?e - 52) = of_int (int n * 2 ^ nat (52 - ?e))" .
  have "?m < 2 ^ 1024" using m(2) by (rule less_trans) simp
  from round_double_exact [OF m(1) this _ k] e0 show ?thesis by simp
qed

section \<open>Examples of the normalizer\<close>

lemma ex_clean: "clean_value ''$1,234,567.00'' = ''1234567.00''"
  by (simp add: clean_value_def py_replace_def py_strip_def py_isspace_def)

lemma ex_underscores: "remove_underscores (CHR 0x00) ''1234567.00'' = Some ''1234567.00''"
  by (simp add: is_digit_def)

lemma ex_inf_nan: "parse_inf_or_nan ''1234567.00'' = None"
  by (simp add: parse_inf_or_nan_def ci_prefix_def ascii_lower_def)

lemma ex_decimal: "parse_decimal ''1234567.00'' = Some (False, 1234567, [])"
  by (simp add: parse_decimal_def parse_exponent_def is_digit_def digits_val_def digit_val_def
      power_int_def power2_eq_square)

lemma ex_round: "round_double False 1234567 = FNum 1234567"
  using round_double_of_nat [of 1234567 False] by simp

lemma ex_float: "py_float ''1234567.00'' = Inr (FNum 1234567)"
  by (simp add: py_float_def ex_underscores float_isspace_def ex_inf_nan ex_decimal ex_round)

lemma ex_currency: "formatted_currency (FNum 1234567) = ''$1,234,567.00''"
  using round_half_even_of_int [of 123456700]
  by (simp add: formatted_currency_def py_ge_def py_lt_def py_eq_def float_of_int_def
      fixed_digits_def digit_char_def pad_digits_numeral)

lemma ex_format_value:
  "format_value (Some ''$1,234,567.00'') =
     \<lparr>raw_value = Some ''$1,234,567.00'', formatted_value = Some ''$1,234,567.00'',
      numeric_value = Some (FNum 1234567), currency = Some ''USD'', status = ''extracted''\<rparr>"
  by (simp add: format_value_def format_value_try_def ex_clean ex_float ex_currency)


lemma ex_pending_float: "\<exists>m. py_float ''Pending review'' = Inl (ValueError m)"
  by (simp add: py_float_def is_digit_def float_isspace_def parse_inf_or_nan_def ci_prefix_def
      ascii_lower_def parse_decimal_def float_error_def)

lemma ex_pending:
  "format_value (Some ''Pending review'') =
     \<lparr>raw_value = Some ''Pending review'', formatted_value = Some ''Pending review'',
      numeric_value = None, currency = None, status = ''extracted_non_numeric''\<rparr>"
proof -
  have c: "clean_value ''Pending review'' = ''Pending review''"
    by (simp add: clean_value_def py_replace_def py_strip_def py_isspace_def)
  from ex_pending_float obtain m where "py_float ''Pending review'' = Inl (ValueError m)" ..
  then show ?thesis by (simp add: format_value_def format_value_try_def c Let_def)
qed

theorem numeric_value_iff_extracted_witness:
  "(''Limit Amount'', Entry (format_value (Some ''$1,234,567.00''))) \<in>
     set (report_data
       (format_extraction_results
          [(''Limit Amount'', Some ''$1,234,567.00''), (''Insurer'', Some ''Pending review'')]
          ''a.pdf'' ''b.xlsx'')) \<and>
   status (format_value (Some ''$1,234,567.00'')) = ''extracted'' \<and>
   numeric_value (format_value (Some ''$1,234,567.00'')) = Some (FNum 1234567) \<and>
   currency (format_value (Some ''$1,234,567.00'')) = Some ''USD'' \<and>
   status (format_value (Some ''Pending review'')) = ''extracted_non_numeric'' \<and>
   numeric_value (format_value (Some ''Pending review'')) = None \<and>
   currency (format_value (Some ''Pending review'')) = None \<and>
   (\<exists>r. Entry (format_value (Some ''$1,234,567.00'')) = Entry r \<and>
      numeric_value r \<noteq> None \<and> status r = ''extracted'' \<and> currency r = Some ''USD'')"
proof -
  let ?extracted = "[(''Limit Amount'', Some ''$1,234,567.00''), (''Insurer'', Some ''Pending review'')]"
  have m: "(''Limit Amount'', Entry (format_value (Some ''$1,234,567.00''))) \<in>
     set (report_data (format_extraction_results ?extracted ''a.pdf'' ''b.xlsx''))"
    by (simp add: format_extraction_results_def Let_def)
  have s1: "status (format_value (Some ''$1,234,567.00'')) = ''extracted''"
    and n1: "numeric_value (format_value (Some ''$1,234,567.00'')) = Some (FNum 1234567)"
    by (simp_all add: ex_format_value)
  have s2: "status (format_value (Some ''Pending review'')) = ''extracted_non_numeric''"
    by (simp add: ex_pending)
  from numeric_value_iff_extracted
    [of "Some ''$1,234,567.00''" ?extracted "''a.pdf''" "''b.xlsx''"] s1
  have c1: "currency (format_value (Some ''$1,234,567.00'')) = Some ''USD''"
    and e1: "\<exists>r. Entry (format_value (Some ''$1,234,567.00'')) = Entry r \<and>
      numeric_value r \<noteq> None \<and> status r = ''extracted'' \<and> currency r = Some ''USD''"
    using m by auto
  from numeric_value_iff_extracted [of "Some ''Pending review''" "[]" "''a.pdf''" "''b.xlsx''"] s2
  have n2: "numeric_value (format_value (Some ''Pending review'')) = None"
    and c2: "currency (format_value (Some ''Pending review'')) = None"
    by auto
  from m s1 n1 c1 s2 n2 c2 e1 show ?thesis by (intro conjI)
qed

section \<open>The comparison builder\<close>

lemma attr_data_loop_entries:
  "\<forall>ex \<in> set rest. dicts_only ex \<Longrightarrow>
   attr_data_loop a i rest acc =
     Inr (acc @ concat (map (\<lambda>j. entries_at (i + j) (rest ! j) a) [0..<length rest]))"
proof (induction rest arbitrary: i acc)
  case Nil
  then show ?case by simp
next
  case (Cons ex rest)
  from Cons.prems have d: "dicts_only ex" and ds: "\<forall>ex \<in> set rest. dicts_only ex" by auto
  have shift: "map (\<lambda>j. entries_at (i + j) ((ex # rest) ! j) a) [0..<length (ex # rest)] =
      entries_at i ex a # map (\<lambda>j. entries_at (Suc i + j) (rest ! j) a) [0..<length rest]"
    by (simp add: upt_conv_Cons map_Suc_upt [symmetric] del: upt_Suc)
  have step: "attr_data_loop a i (ex # rest) acc =
      attr_data_loop a (Suc i) rest (acc @ entries_at i ex a)"
  proof (cases "extracted_data ex")
    case None
    then show ?thesis by (simp add: entries_at_def report_entry_def)
  next
    case (Some fd)
    show ?thesis
    proof (cases "map_of fd a")
      case None
      with Some show ?thesis by (simp add: entries_at_def report_entry_def)
    next
      case (Some d)
      with \<open>extracted_data ex = Some fd\<close> d have "d \<noteq> NotADict"
        by (auto simp: dicts_only_def dest!: map_of_SomeD intro: rev_image_eqI)
      then obtain r where "d = Entry r" by (cases d) auto
      with Some \<open>extracted_data ex = Some fd\<close> show ?thesis
        by (simp add: entries_at_def report_entry_def entry_get_def document_name_of_def)
    qed
  qed
  show ?case unfolding step Cons.IH [OF ds] shift by simp
qed

lemma attributes_loop_entries:
  "\<forall>ex \<in> set rs. dicts_only ex \<Longrightarrow>
   attributes_loop attrs rs acc =
     Inr (\<lambda>a. if a \<in> set attrs
               then Some (concat (map (\<lambda>j. entries_at j (rs ! j) a) [0..<length rs]))
               else acc a)"
proof (induction attrs arbitrary: acc)
  case Nil
  then show ?case by simp
next
  case (Cons a attrs)
  from attr_data_loop_entries [OF Cons.prems, of a 0 "[]"]
  have "attr_data_loop a 0 rs [] =
      Inr (concat (map (\<lambda>j. entries_at j (rs ! j) a) [0..<length rs]))" by simp
  then show ?case
    by (auto simp: Cons.IH [OF Cons.prems] fun_eq_iff)
qed

lemma all_attributes_set:
  "\<forall>ex \<in> set rs. dicts_only ex \<Longrightarrow>
   a \<in> set (all_attributes rs) \<longleftrightarrow> (\<exists>ex \<in> set rs. report_entry ex a \<noteq> None)"
proof -
  assume ds: "\<forall>ex \<in> set rs. dicts_only ex"
  have "a \<in> set (attributes_of ex) \<longleftrightarrow> report_entry ex a \<noteq> None" if "ex \<in> set rs" for ex
  proof (cases "extracted_data ex")
    case None
    then show ?thesis by (simp add: attributes_of_def report_entry_def)
  next
    case (Some fd)
    from ds that have "dicts_only ex" by blast
    with Some have nd: "NotADict \<notin> snd ` set fd" by (simp add: dicts_only_def)
    show ?thesis
    proof (cases "map_of fd a")
      case None
      then have "a \<notin> fst ` set fd" by (simp add: map_of_eq_None_iff)
      with None Some show ?thesis
        by (simp add: attributes_of_def report_entry_def)
    next
      case (Some d)
      with nd have "d \<noteq> NotADict" by (auto dest!: map_of_SomeD intro: rev_image_eqI)
      then obtain r where "d = Entry r" by (cases d) auto
      with Some \<open>extracted_data ex = Some fd\<close> show ?thesis
        by (auto simp: attributes_of_def report_entry_def dest!: map_of_SomeD
            intro: rev_image_eqI)
    qed
  qed
  then show ?thesis by (auto simp: all_attributes_def)
qed

lemma entries_indices:
  "map document_index (concat (map (\<lambda>i. entries_at i (f i) a) xs)) =
   filter (\<lambda>i. report_entry (f i) a \<noteq> None) xs"
  by (induction xs) (auto simp: entries_at_def split: option.splits)

text \<open>
  Claim C9. With fewer than two reports the comparison returns the error value
  \<^verbatim>\<open>Need at least 2 extractions for comparison\<close>. With two or more reports whose
  entries are dicts it returns a report in which \<^verbatim>\<open>total_documents\<close> is the number of
  reports and \<^verbatim>\<open>attribute_comparison\<close> has a list exactly for the attributes that some
  report has; the list of an attribute has one element for each report that has the
  attribute, in the order of the indices of the reports, and the element of report \<open>i\<close>
  has the index \<open>i\<close>, the name of the document (\<^verbatim>\<open>document_i\<close> when the report gives
  none) and the numeric value, the formatted value and the status of the attribute there.
\<close>

theorem comparison_report:
  "(length rs < 2 \<longrightarrow>
      create_comparison_report rs =
        ComparisonError ''Need at least 2 extractions for comparison'') \<and>
   (2 \<le> length rs \<and> (\<forall>ex \<in> set rs. dicts_only ex) \<longrightarrow>
      (\<exists>c. create_comparison_report rs = Comparison c \<and>
           total_documents c = length rs \<and>
           (\<forall>a. attribute_comparison c a =
              (if \<exists>ex \<in> set rs. report_entry ex a \<noteq> None
               then Some (concat (map (\<lambda>i. entries_at i (rs ! i) a) [0..<length rs]))
               else None)) \<and>
           (\<forall>a es. attribute_comparison c a = Some es \<longrightarrow>
              map document_index es =
                filter (\<lambda>i. report_entry (rs ! i) a \<noteq> None) [0..<length rs])))"
proof (intro conjI impI)
  assume "length rs < 2"
  then show "create_comparison_report rs =
        ComparisonError ''Need at least 2 extractions for comparison''"
    by (simp add: create_comparison_report_def)
next
  assume h: "2 \<le> length rs \<and> (\<forall>ex \<in> set rs. dicts_only ex)"
  then have ds: "\<forall>ex \<in> set rs. dicts_only ex" and n: "\<not> length rs < 2" by auto
  let ?ac = "\<lambda>a. if a \<in> set (all_attributes rs)
               then Some (concat (map (\<lambda>j. entries_at j (rs ! j) a) [0..<length rs]))
               else Map.empty a"
  have c: "create_comparison_report rs =
      Comparison \<lparr>total_documents = length rs, attribute_comparison = ?ac\<rparr>"
    using n by (simp add: create_comparison_report_def attributes_loop_entries [OF ds])
  show "\<exists>c. create_comparison_report rs = Comparison c \<and>
           total_documents c = length rs \<and>
           (\<forall>a. attribute_comparison c a =
              (if \<exists>ex \<in> set rs. report_entry ex a \<noteq> None
               then Some (concat (map (\<lambda>i. entries_at i (rs ! i) a) [0..<length rs]))
               else None)) \<and>
           (\<forall>a es. attribute_comparison c a = Some es \<longrightarrow>
              map document_index es =
                filter (\<lambda>i. report_entry (rs ! i) a \<noteq> None) [0..<length rs])"
    unfolding c using all_attributes_set [OF ds] by (auto simp: entries_indices)
qed

theorem comparison_report_witness:
  "create_comparison_report [hd example_reports] =
     ComparisonError ''Need at least 2 extractions for comparison'' \<and>
   (\<exists>c. create_comparison_report example_reports = Comparison c \<and>
      total_documents c = 3 \<and>
      map document_index (the (attribute_comparison c ''Limit Amount'')) = [0, 2] \<and>
      map document_name (the (attribute_comparison c ''Limit Amount'')) =
        [''a.pdf'', ''document_2''] \<and>
      map cmp_value (the (attribute_comparison c ''Limit Amount'')) =
        [Some (FNum 5000000), Some (FNum 4900000)] \<and>
      map document_index (the (attribute_comparison c ''Premium due'')) = [2] \<and>
      attribute_comparison c ''Annual Premium'' = None)"
proof -
  have one: "length [hd example_reports] < 2" by simp
  have n: "2 \<le> length example_reports \<and> (\<forall>ex \<in> set example_reports. dicts_only ex)"
    by (simp add: example_reports_def dicts_only_def)
  have up: "[0..<length example_reports] = [0, 1, 2]"
    by (simp add: example_reports_def upt_conv_Cons)
  have la: "\<exists>ex \<in> set example_reports. report_entry ex ''Limit Amount'' \<noteq> None"
    and pd: "\<exists>ex \<in> set example_reports. report_entry ex ''Premium due'' \<noteq> None"
    and ap: "\<not> (\<exists>ex \<in> set example_reports. report_entry ex ''Annual Premium'' \<noteq> None)"
    by (simp_all add: example_reports_def report_entry_def)
  have e0: "entries_at 0 (example_reports ! 0) ''Limit Amount'' =
      [\<lparr>document_index = 0, document_name = ''a.pdf'', cmp_value = Some (FNum 5000000),
        formatted = Some (formatted_currency (FNum 5000000)), entry_status = ''extracted''\<rparr>]"
    and e1: "entries_at 1 (example_reports ! 1) a = []"
    and e2: "entries_at 2 (example_reports ! 2) ''Limit Amount'' =
      [\<lparr>document_index = 2, document_name = ''document_2'', cmp_value = Some (FNum 4900000),
        formatted = Some (formatted_currency (FNum 4900000)), entry_status = ''extracted''\<rparr>]"
    and p0: "entries_at 0 (example_reports ! 0) ''Premium due'' = []"
    and p2: "map document_index (entries_at 2 (example_reports ! 2) ''Premium due'') = [2]"
    for a
    by (simp_all add: example_reports_def report_entry_def entries_at_def extracted_number_def
        digit_char_def)
  from comparison_report [of example_reports, THEN conjunct2, rule_format, OF n]
  obtain c where c1: "create_comparison_report example_reports = Comparison c"
    and c2: "total_documents c = length example_reports"
    and c3: "\<forall>a. attribute_comparison c a =
       (if \<exists>ex \<in> set example_reports. report_entry ex a \<noteq> None
        then Some (concat (map (\<lambda>i. entries_at i (example_reports ! i) a)
               [0..<length example_reports]))
        else None)"
    by (elim exE conjE)
  from c3 la have a1: "attribute_comparison c ''Limit Amount'' =
      Some (entries_at 0 (example_reports ! 0) ''Limit Amount'' @
            entries_at 1 (example_reports ! 1) ''Limit Amount'' @
            entries_at 2 (example_reports ! 2) ''Limit Amount'')"
    unfolding up by simp
  from c3 pd have a2: "attribute_comparison c ''Premium due'' =
      Some (entries_at 0 (example_reports ! 0) ''Premium due'' @
            entries_at 1 (example_reports ! 1) ''Premium due'' @
            entries_at 2 (example_reports ! 2) ''Premium due'')"
    unfolding up by simp
  from c3 ap have a3: "attribute_comparison c ''Annual Premium'' = None" by simp
  have t: "total_documents c = 3" unfolding c2 by (simp add: example_reports_def)
  have r: "total_documents c = 3 \<and>
      map document_index (the (attribute_comparison c ''Limit Amount'')) = [0, 2] \<and>
      map document_name (the (attribute_comparison c ''Limit Amount'')) =
        [''a.pdf'', ''document_2''] \<and>
      map cmp_value (the (attribute_comparison c ''Limit Amount'')) =
        [Some (FNum 5000000), Some (FNum 4900000)] \<and>
      map document_index (the (attribute_comparison c ''Premium due'')) = [2] \<and>
      attribute_comparison c ''Annual Premium'' = None"
    unfolding a1 a2 a3 e0 e1 e2 p0 using t p2 by simp
  from comparison_report [of "[hd example_reports]", THEN conjunct1, rule_format, OF one]
  have "create_comparison_report [hd example_reports] =
     ComparisonError ''Need at least 2 extractions for comparison''" .
  moreover from c1 r have "\<exists>c. create_comparison_report example_reports = Comparison c \<and>
      total_documents c = 3 \<and>
      map document_index (the (attribute_comparison c ''Limit Amount'')) = [0, 2] \<and>
      map document_name (the (attribute_comparison c ''Limit Amount'')) =
        [''a.pdf'', ''document_2''] \<and>
      map cmp_value (the (attribute_comparison c ''Limit Amount'')) =
        [Some (FNum 5000000), Some (FNum 4900000)] \<and>
      map document_index (the (attribute_comparison c ''Premium due'')) = [2] \<and>
      attribute_comparison c ''Annual Premium'' = None"
    by (intro exI [of _ c] conjI) (elim conjE, assumption)+
  ultimately show ?thesis by (rule conjI)
qed

end
